theory Spec2Isabelle
  imports Complex_Main "HOL-Library.Sublist"
begin

section \<open>The flappy-bird simulation loop of \<^verbatim>\<open>src/app/page.tsx\<close>\<close>

text \<open>
  The source computes with JavaScript numbers. The model uses \<^typ>\<open>real\<close>: every
  arithmetic operation is exact, and the values \<^verbatim>\<open>NaN\<close> and \<^verbatim>\<open>Infinity\<close> do not
  exist. All comparisons and branches are those of the source.
\<close>

subsection \<open>World constants (lines 14 to 25)\<close>

definition CANVAS_WIDTH :: real where "CANVAS_WIDTH = 420"
definition CANVAS_HEIGHT :: real where "CANVAS_HEIGHT = 640"
definition GROUND_HEIGHT :: real where "GROUND_HEIGHT = 90"
definition BIRD_X :: real where "BIRD_X = CANVAS_WIDTH * 0.28"
definition BIRD_RADIUS :: real where "BIRD_RADIUS = 16"
definition GRAVITY :: real where "GRAVITY = 1800"
definition FLAP_STRENGTH :: real where "FLAP_STRENGTH = - 620"
definition MAX_DROP_SPEED :: real where "MAX_DROP_SPEED = 820"
definition PIPE_WIDTH :: real where "PIPE_WIDTH = 78"
definition PIPE_GAP :: real where "PIPE_GAP = 155"
definition PIPE_SPEED :: real where "PIPE_SPEED = 180"
definition PIPE_INTERVAL :: real where "PIPE_INTERVAL = 1.45"

subsection \<open>Data (lines 27 to 53)\<close>

text \<open>
  The type \<^verbatim>\<open>Pipe\<close>. Its field \<^verbatim>\<open>x\<close> is called \<open>pipe_x\<close> here, because a record
  selector is a global constant and \<open>x\<close> is needed as a variable name.
\<close>

record Pipe =
  pipe_x :: real
  gapCenter :: real
  passed :: bool

record GameState =
  birdY :: real
  birdVelocity :: real
  pipes :: "Pipe list"
  spawnTimer :: real
  lastTime :: real
  running :: bool
  wingTimer :: real

definition createInitialState :: GameState where
  "createInitialState =
     \<lparr>birdY = CANVAS_HEIGHT / 2, birdVelocity = 0, pipes = [], spawnTimer = 0,
      lastTime = 0, running = False, wingTimer = 0\<rparr>"

subsection \<open>The random gap centre (lines 55 to 59)\<close>

text \<open>
  \<^verbatim>\<open>Math.random()\<close> is the only nondeterministic input. Its result is the parameter
  \<open>rnd\<close>; the source draws it from the interval from 0 (included) to 1 (excluded).
\<close>

definition randomGapCenter :: "real \<Rightarrow> real" where
  "randomGapCenter rnd =
     (let min = PIPE_GAP / 2 + 40;
          max = CANVAS_HEIGHT - GROUND_HEIGHT - PIPE_GAP / 2 - 40
      in min + rnd * (max - min))"

subsection \<open>The frame transition \<^verbatim>\<open>advanceState\<close> (lines 61 to 131)\<close>

text \<open>
  The two callbacks are opaque to \<^verbatim>\<open>advanceState\<close>: it calls them and reads nothing
  back. Each call is recorded, in call order, in a list of events returned beside the
  new state. Every call of \<^verbatim>\<open>onCrash\<close> is the last statement \<^verbatim>\<open>advanceState\<close>
  executes, and \<^verbatim>\<open>onScore\<close> as passed by the component (\<^verbatim>\<open>incrementScore\<close>) does not
  touch the game state, so running the callbacks on the returned state, as \<open>advance\<close>
  below does, gives what the source computes.
\<close>

datatype event = Score | Crash

text \<open>Lines 72 to 78: timers, gravity, the clamp of the fall speed, the position.\<close>

definition applyPhysics :: "GameState \<Rightarrow> real \<Rightarrow> GameState" where
  "applyPhysics state dt =
     (let s1 = state\<lparr>spawnTimer := spawnTimer state + dt\<rparr>;
          s2 = s1\<lparr>wingTimer := wingTimer s1 + dt\<rparr>;
          s3 = s2\<lparr>birdVelocity := birdVelocity s2 + GRAVITY * dt\<rparr>;
          s4 = (if birdVelocity s3 > MAX_DROP_SPEED
                then s3\<lparr>birdVelocity := MAX_DROP_SPEED\<rparr> else s3)
      in s4\<lparr>birdY := birdY s4 + birdVelocity s4 * dt\<rparr>)"

text \<open>Lines 80 to 87: the spawn of a pipe when the timer has reached the interval.\<close>

definition spawnPipe :: "GameState \<Rightarrow> real \<Rightarrow> GameState" where
  "spawnPipe state rnd =
     (if spawnTimer state \<ge> PIPE_INTERVAL
      then state\<lparr>spawnTimer := spawnTimer state - PIPE_INTERVAL,
                 pipes := pipes state @
                   [\<lparr>pipe_x = CANVAS_WIDTH + PIPE_WIDTH,
                     gapCenter = randomGapCenter rnd,
                     passed = False\<rparr>]\<rparr>
      else state)"

text \<open>Lines 97 to 105: the collision predicate of one pipe.\<close>

definition hitsPipe :: "real \<Rightarrow> Pipe \<Rightarrow> bool" where
  "hitsPipe y pipe =
     (let gapTop = gapCenter pipe - PIPE_GAP / 2;
          gapBottom = gapCenter pipe + PIPE_GAP / 2;
          overlapsHorizontally =
            (BIRD_X + BIRD_RADIUS > pipe_x pipe \<and>
             BIRD_X - BIRD_RADIUS < pipe_x pipe + PIPE_WIDTH)
      in overlapsHorizontally \<and>
         (y - BIRD_RADIUS < gapTop \<or> y + BIRD_RADIUS > gapBottom))"

text \<open>
  Lines 90 to 105: the body of the loop for one pipe. The result is the pipe as the body
  leaves it, whether the body called \<^verbatim>\<open>onScore\<close>, and the value of \<^verbatim>\<open>hitsPipe\<close>.
\<close>

definition scoresNow :: "Pipe \<Rightarrow> bool" where
  "scoresNow pipe \<longleftrightarrow>
     \<not> passed pipe \<and> pipe_x pipe + PIPE_WIDTH < BIRD_X - BIRD_RADIUS"

definition pipeStep :: "real \<Rightarrow> real \<Rightarrow> Pipe \<Rightarrow> Pipe \<times> bool \<times> bool" where
  "pipeStep y dt pipe =
     (let p1 = pipe\<lparr>pipe_x := pipe_x pipe - PIPE_SPEED * dt\<rparr>;
          sc = scoresNow p1;
          p2 = (if sc then p1\<lparr>passed := True\<rparr> else p1)
      in (p2, sc, hitsPipe y p2))"

text \<open>
  Lines 89 to 111: the loop over the pipes, in list order. At the first hit the loop
  calls \<^verbatim>\<open>onCrash\<close> and the function returns: the pipes behind the hit one are left as
  they were. The third component says whether that happened.
\<close>

fun pipeLoop :: "real \<Rightarrow> real \<Rightarrow> Pipe list \<Rightarrow> Pipe list \<times> event list \<times> bool" where
  "pipeLoop y dt [] = ([], [], False)"
| "pipeLoop y dt (pipe # rest) =
     (case pipeStep y dt pipe of (p, sc, hit) \<Rightarrow>
        let ev = (if sc then [Score] else []) in
        if hit then (p # rest, ev @ [Crash], True)
        else (case pipeLoop y dt rest of (ps, evs, h) \<Rightarrow> (p # ps, ev @ evs, h)))"

text \<open>Line 113: the filter that drops the pipes far enough to the left.\<close>

definition keepPipe :: "Pipe \<Rightarrow> bool" where
  "keepPipe pipe \<longleftrightarrow> pipe_x pipe + PIPE_WIDTH > - PIPE_WIDTH"

text \<open>Lines 115 to 130: the ceiling and the ground.\<close>

definition boundaryCheck :: "GameState \<Rightarrow> GameState \<times> event list" where
  "boundaryCheck state =
     (let ceilingHit = (birdY state - BIRD_RADIUS \<le> 0);
          groundY = CANVAS_HEIGHT - GROUND_HEIGHT;
          groundHit = (birdY state + BIRD_RADIUS \<ge> groundY)
      in if ceilingHit
         then (state\<lparr>birdY := BIRD_RADIUS, birdVelocity := 0\<rparr>, [Crash])
         else if groundHit
         then (state\<lparr>birdY := groundY - BIRD_RADIUS, birdVelocity := 0\<rparr>, [Crash])
         else (state, []))"

definition advanceState :: "GameState \<Rightarrow> real \<Rightarrow> real \<Rightarrow> GameState \<times> event list" where
  "advanceState state dt rnd =
     (if \<not> running state then (state\<lparr>wingTimer := wingTimer state + dt\<rparr>, [])
      else
        let s1 = spawnPipe (applyPhysics state dt) rnd in
        case pipeLoop (birdY s1) dt (pipes s1) of (ps, evs, hit) \<Rightarrow>
          if hit then (s1\<lparr>pipes := ps\<rparr>, evs)
          else (case boundaryCheck (s1\<lparr>pipes := filter keepPipe ps\<rparr>) of
                  (s2, evs') \<Rightarrow> (s2, evs @ evs')))"

subsection \<open>The component around the engine (lines 300 to 403)\<close>

text \<open>
  The part of the component the engine interacts with: the game state behind
  \<^verbatim>\<open>gameRef\<close>, the \<^verbatim>\<open>status\<close>, the score and the best score. The source
  holds \<^verbatim>\<open>status\<close> and the scores in React state; the model updates them at once.
\<close>

datatype Status = Idle | Running | Over

record App =
  game :: GameState
  status :: Status
  score :: nat
  bestScore :: nat

definition incrementScore :: "App \<Rightarrow> App" where
  "incrementScore app =
     (let next = score app + 1
      in app\<lparr>score := next,
              bestScore := (if next > bestScore app then next else bestScore app)\<rparr>)"

definition endGame :: "App \<Rightarrow> App" where
  "endGame app =
     (if \<not> running (game app) then app
      else app\<lparr>game := (game app)\<lparr>running := False, lastTime := 0\<rparr>, status := Over\<rparr>)"

definition callback :: "event \<Rightarrow> App \<Rightarrow> App" where
  "callback e app = (case e of Score \<Rightarrow> incrementScore app | Crash \<Rightarrow> endGame app)"

text \<open>
  Line 352: \<^verbatim>\<open>advanceState(state, delta, incrementScore, endGame)\<close> on the state behind
  \<^verbatim>\<open>gameRef\<close>.
\<close>

definition advance :: "real \<Rightarrow> real \<Rightarrow> App \<Rightarrow> App" where
  "advance dt rnd app =
     (case advanceState (game app) dt rnd of
        (state, evs) \<Rightarrow> fold callback evs (app\<lparr>game := state\<rparr>))"

text \<open>Lines 364 to 393: the reset.\<close>

definition startGame :: "bool \<Rightarrow> App \<Rightarrow> App" where
  "startGame withFlap app =
     (let fresh = createInitialState\<lparr>running := True\<rparr>;
          fresh' = (if withFlap then fresh\<lparr>birdVelocity := FLAP_STRENGTH\<rparr> else fresh)
      in app\<lparr>game := fresh', score := 0, status := Running\<rparr>)"

text \<open>
  Lines 395 to 403: \<^verbatim>\<open>handleFlap\<close> routes a flap outside a run to the reset, and
  otherwise performs the flap proper, the assignment of line 402.
\<close>

definition flap :: "GameState \<Rightarrow> GameState" where
  "flap state = state\<lparr>birdVelocity := FLAP_STRENGTH\<rparr>"

definition handleFlap :: "App \<Rightarrow> App" where
  "handleFlap app =
     (if status app \<noteq> Running then startGame True app
      else app\<lparr>game := flap (game app)\<rparr>)"

text \<open>
  Sequences of calls, as the frame loop and the input handlers make them: a frame
  (\<open>Advance\<close>, with the elapsed time and the random draw), the flap proper (\<open>Flap\<close>),
  the input handler \<^verbatim>\<open>handleFlap\<close> (\<open>HandleFlap\<close>) and the reset (\<open>Reset\<close>).
\<close>

datatype action = Advance real real | Flap | HandleFlap | Reset bool

fun perform :: "action \<Rightarrow> App \<Rightarrow> App" where
  "perform (Advance dt rnd) app = advance dt rnd app"
| "perform Flap app = app\<lparr>game := flap (game app)\<rparr>"
| "perform HandleFlap app = handleFlap app"
| "perform (Reset withFlap) app = startGame withFlap app"

definition run :: "action list \<Rightarrow> App \<Rightarrow> App" where
  "run acts app = fold perform acts app"

subsection \<open>Names for the intermediate values of a frame\<close>

text \<open>
  The state of a running frame after the physics and the spawn (line 87), and the result
  of the loop over its pipes (line 111). \<open>advanceState_hit\<close> and
  \<open>advanceState_no_hit\<close> below relate them to \<open>advanceState\<close>.
\<close>

definition afterSpawn :: "GameState \<Rightarrow> real \<Rightarrow> real \<Rightarrow> GameState" where
  "afterSpawn st dt rnd = spawnPipe (applyPhysics st dt) rnd"

definition loopResult :: "GameState \<Rightarrow> real \<Rightarrow> real \<Rightarrow> Pipe list \<times> event list \<times> bool" where
  "loopResult st dt rnd =
     pipeLoop (birdY (afterSpawn st dt rnd)) dt (pipes (afterSpawn st dt rnd))"

text \<open>The number of calls of \<^verbatim>\<open>onScore\<close> in a list of events.\<close>

definition scoreCount :: "event list \<Rightarrow> nat" where
  "scoreCount evs = length (filter (\<lambda>e. e = Score) evs)"

text \<open>
  A pipe before and after a frame: \<open>flipped\<close> says that its flag went from false to
  true; \<open>sameObstacle\<close> that the gap centre is the same and a flag that was true still
  is. \<open>pendingCount\<close> counts the pipes whose flag is false.
\<close>

definition flipped :: "Pipe \<times> Pipe \<Rightarrow> bool" where
  "flipped pq \<longleftrightarrow> \<not> passed (fst pq) \<and> passed (snd pq)"

definition sameObstacle :: "Pipe \<Rightarrow> Pipe \<Rightarrow> bool" where
  "sameObstacle p q \<longleftrightarrow> gapCenter q = gapCenter p \<and> (passed p \<longrightarrow> passed q)"

definition pendingCount :: "Pipe list \<Rightarrow> nat" where
  "pendingCount ps = length (filter (\<lambda>p. \<not> passed p) ps)"

text \<open>The calls that are neither a reset nor routed to one.\<close>

fun engineAction :: "action \<Rightarrow> bool" where
  "engineAction (Advance dt rnd) = True"
| "engineAction Flap = True"
| "engineAction HandleFlap = False"
| "engineAction (Reset withFlap) = False"

text \<open>
  Line 80 as seen from the state before the frame: the frame spawns a pipe. And the
  number of pipes spawned along a sequence of calls.
\<close>

definition spawnDue :: "GameState \<Rightarrow> real \<Rightarrow> bool" where
  "spawnDue st dt \<longleftrightarrow> running st \<and> spawnTimer st + dt \<ge> PIPE_INTERVAL"

fun spawnsDuring :: "action list \<Rightarrow> App \<Rightarrow> nat" where
  "spawnsDuring [] app = 0"
| "spawnsDuring (a # acts) app =
     (case a of Advance dt rnd \<Rightarrow> (if spawnDue (game app) dt then 1 else 0) | _ \<Rightarrow> 0) +
     spawnsDuring acts (perform a app)"

text \<open>The calls whose elapsed time, if they have one, is not negative.\<close>

fun nonNegativeDt :: "action \<Rightarrow> bool" where
  "nonNegativeDt (Advance dt rnd) = (0 \<le> dt)"
| "nonNegativeDt Flap = True"
| "nonNegativeDt HandleFlap = True"
| "nonNegativeDt (Reset withFlap) = True"

subsection \<open>Concrete states\<close>

text \<open>The component before the first run, and after a run that has ended.\<close>

definition freshApp :: App where
  "freshApp = \<lparr>game = createInitialState, status = Idle, score = 0, bestScore = 0\<rparr>"

definition overApp :: App where
  "overApp = endGame (startGame False freshApp)"

text \<open>A running state whose only pipe has its trailing edge left of the boundary.\<close>

definition stalePipe :: GameState where
  "stalePipe =
     \<lparr>birdY = 320, birdVelocity = 0,
      pipes = [\<lparr>pipe_x = - 100, gapCenter = 300, passed = True\<rparr>],
      spawnTimer = 0, lastTime = 0, running = True, wingTimer = 0\<rparr>"

text \<open>A state that is not running and holds a pipe far to the left.\<close>

definition strandedPipe :: GameState where
  "strandedPipe =
     \<lparr>birdY = 200, birdVelocity = 300,
      pipes = [\<lparr>pipe_x = - 200, gapCenter = 300, passed = True\<rparr>],
      spawnTimer = 1, lastTime = 0, running = False, wingTimer = 0\<rparr>"

text \<open>A running state with one pipe about to be dropped and one ahead of the bird.\<close>

definition twoPipes :: GameState where
  "twoPipes =
     \<lparr>birdY = 320, birdVelocity = 0,
      pipes = [\<lparr>pipe_x = - 155, gapCenter = 300, passed = True\<rparr>,
               \<lparr>pipe_x = 200, gapCenter = 320, passed = False\<rparr>],
      spawnTimer = 0, lastTime = 0, running = True, wingTimer = 0\<rparr>"

text \<open>The same pipes with the bird just above the ground line.\<close>

definition lowBird :: GameState where
  "lowBird = twoPipes\<lparr>birdY := 534\<rparr>"

text \<open>A running state whose only pipe is about to leave the bird behind.\<close>

definition passingPipe :: GameState where
  "passingPipe =
     \<lparr>birdY = 320, birdVelocity = 0,
      pipes = [\<lparr>pipe_x = 24, gapCenter = 320, passed = False\<rparr>],
      spawnTimer = 0, lastTime = 0, running = True, wingTimer = 0\<rparr>"

definition passingApp :: App where
  "passingApp = \<lparr>game = passingPipe, status = Running, score = 0, bestScore = 0\<rparr>"

text \<open>A pipe that overlaps the bird horizontally, and one the bird has left behind.\<close>

definition overlappingPipe :: Pipe where
  "overlappingPipe = \<lparr>pipe_x = 100, gapCenter = 300, passed = False\<rparr>"

definition behindPipe :: Pipe where
  "behindPipe = \<lparr>pipe_x = 0, gapCenter = 300, passed = False\<rparr>"

section \<open>Auxiliary facts\<close>

lemmas consts_defs =
  CANVAS_WIDTH_def CANVAS_HEIGHT_def GROUND_HEIGHT_def BIRD_X_def BIRD_RADIUS_def
  GRAVITY_def FLAP_STRENGTH_def MAX_DROP_SPEED_def PIPE_WIDTH_def PIPE_GAP_def
  PIPE_SPEED_def PIPE_INTERVAL_def

lemmas engine_defs =
  advanceState_def applyPhysics_def spawnPipe_def pipeStep_def scoresNow_def hitsPipe_def
  boundaryCheck_def keepPipe_def randomGapCenter_def afterSpawn_def loopResult_def

subsection \<open>The loop over the pipes\<close>


lemma pipeLoop_no_hit:
  "\<not> snd (snd (pipeLoop y dt ps)) \<Longrightarrow>
     fst (pipeLoop y dt ps) = map (\<lambda>p. fst (pipeStep y dt p)) ps"
  by (induction ps) (auto split: prod.splits simp: Let_def)

lemma pipeStep_same: "sameObstacle pipe (fst (pipeStep y dt pipe))"
  by (simp add: sameObstacle_def pipeStep_def Let_def)

lemma pipeStep_flipped:
  "flipped (pipe, fst (pipeStep y dt pipe)) \<longleftrightarrow> fst (snd (pipeStep y dt pipe))"
  by (auto simp add: flipped_def pipeStep_def scoresNow_def Let_def)

lemma pipeStep_gone_passed:
  "\<not> keepPipe (fst (pipeStep y dt pipe)) \<Longrightarrow> passed (fst (pipeStep y dt pipe))"
  by (auto simp add: keepPipe_def pipeStep_def scoresNow_def Let_def consts_defs)

lemma same_refl: "list_all2 sameObstacle ps ps"
  by (simp add: list_all2_refl sameObstacle_def)

lemma no_flip_refl: "filter flipped (zip ps ps) = []"
  by (induction ps) (simp_all add: flipped_def)

lemma pipeLoop_same: "list_all2 sameObstacle ps (fst (pipeLoop y dt ps))"
proof (induction ps)
  case Nil
  then show ?case by simp
next
  case (Cons pipe rest)
  then show ?case
    using pipeStep_same [of pipe y dt]
    by (simp add: case_prod_beta Let_def same_refl)
qed

lemma pipeLoop_score_count:
  "scoreCount (fst (snd (pipeLoop y dt ps))) =
     length (filter flipped (zip ps (fst (pipeLoop y dt ps))))"
proof (induction ps)
  case Nil
  then show ?case by (simp add: scoreCount_def)
next
  case (Cons pipe rest)
  then show ?case
    using pipeStep_flipped [of pipe y dt]
    by (simp add: case_prod_beta Let_def no_flip_refl scoreCount_def)
qed

lemma pending_flipped:
  "list_all2 sameObstacle ps qs \<Longrightarrow>
     pendingCount qs + length (filter flipped (zip ps qs)) = pendingCount ps"
  by (induction rule: list_all2_induct)
     (auto simp add: pendingCount_def flipped_def sameObstacle_def)

lemma pending_filter_keep:
  "pendingCount (filter keepPipe (map (\<lambda>p. fst (pipeStep y dt p)) ps)) =
   pendingCount (map (\<lambda>p. fst (pipeStep y dt p)) ps)"
proof (induction ps)
  case Nil
  then show ?case by simp
next
  case (Cons pipe rest)
  then show ?case
    using pipeStep_gone_passed [of y dt pipe] by (auto simp add: pendingCount_def)
qed

subsection \<open>The ceiling and ground check\<close>

lemma boundaryCheck_pipes: "pipes (fst (boundaryCheck s)) = pipes s"
  by (simp add: boundaryCheck_def Let_def)


lemma boundaryCheck_velocity:
  "\<bar>birdVelocity s\<bar> \<le> MAX_DROP_SPEED \<Longrightarrow>
     \<bar>birdVelocity (fst (boundaryCheck s))\<bar> \<le> MAX_DROP_SPEED"
  by (simp add: boundaryCheck_def Let_def MAX_DROP_SPEED_def)

lemma boundaryCheck_no_score: "scoreCount (snd (boundaryCheck s)) = 0"
  by (simp add: boundaryCheck_def scoreCount_def Let_def)

subsection \<open>The three ways through a frame\<close>

lemma advanceState_idle:
  "\<not> running st \<Longrightarrow> advanceState st dt rnd = (st\<lparr>wingTimer := wingTimer st + dt\<rparr>, [])"
  by (simp add: advanceState_def)

lemma advanceState_hit:
  "running st \<Longrightarrow> snd (snd (loopResult st dt rnd)) \<Longrightarrow>
     advanceState st dt rnd =
       ((afterSpawn st dt rnd)\<lparr>pipes := fst (loopResult st dt rnd)\<rparr>,
        fst (snd (loopResult st dt rnd)))"
  by (simp add: advanceState_def loopResult_def afterSpawn_def Let_def case_prod_beta)

lemma advanceState_no_hit:
  "running st \<Longrightarrow> \<not> snd (snd (loopResult st dt rnd)) \<Longrightarrow>
     advanceState st dt rnd =
       (fst (boundaryCheck
          ((afterSpawn st dt rnd)\<lparr>pipes := filter keepPipe (fst (loopResult st dt rnd))\<rparr>)),
        fst (snd (loopResult st dt rnd)) @
        snd (boundaryCheck
          ((afterSpawn st dt rnd)\<lparr>pipes := filter keepPipe (fst (loopResult st dt rnd))\<rparr>)))"
  by (simp add: advanceState_def loopResult_def afterSpawn_def Let_def case_prod_beta)





lemma advanceState_pipes:
  "running st \<Longrightarrow> pipes (fst (advanceState st dt rnd)) =
     (if snd (snd (loopResult st dt rnd)) then fst (loopResult st dt rnd)
      else filter keepPipe (fst (loopResult st dt rnd)))"
  by (simp add: advanceState_hit advanceState_no_hit boundaryCheck_pipes)

lemma scoreCount_append: "scoreCount (xs @ ys) = scoreCount xs + scoreCount ys"
  by (simp add: scoreCount_def)

lemma advanceState_scoreCount:
  "running st \<Longrightarrow>
     scoreCount (snd (advanceState st dt rnd)) = scoreCount (fst (snd (loopResult st dt rnd)))"
  by (cases "snd (snd (loopResult st dt rnd))")
     (simp_all add: advanceState_hit advanceState_no_hit scoreCount_append
        boundaryCheck_no_score)



subsection \<open>The fall speed\<close>

lemma applyPhysics_velocity:
  assumes "0 \<le> dt" and "\<bar>birdVelocity st\<bar> \<le> MAX_DROP_SPEED"
  shows "\<bar>birdVelocity (applyPhysics st dt)\<bar> \<le> MAX_DROP_SPEED"
proof -
  have "0 \<le> GRAVITY * dt" using assms(1) by (simp add: GRAVITY_def)
  with assms(2) show ?thesis
    by (auto simp add: applyPhysics_def Let_def MAX_DROP_SPEED_def abs_le_iff)
qed

lemma afterSpawn_velocity:
  "birdVelocity (afterSpawn st dt rnd) = birdVelocity (applyPhysics st dt)"
  by (simp add: afterSpawn_def spawnPipe_def)

lemma advanceState_velocity:
  assumes "0 \<le> dt" and "\<bar>birdVelocity st\<bar> \<le> MAX_DROP_SPEED"
  shows "\<bar>birdVelocity (fst (advanceState st dt rnd))\<bar> \<le> MAX_DROP_SPEED"
proof (cases "running st")
  case False
  with assms(2) show ?thesis by (simp add: advanceState_idle)
next
  case True
  have v: "\<bar>birdVelocity (afterSpawn st dt rnd)\<bar> \<le> MAX_DROP_SPEED"
    using assms by (simp add: afterSpawn_velocity applyPhysics_velocity)
  show ?thesis
  proof (cases "snd (snd (loopResult st dt rnd))")
    case True
    with \<open>running st\<close> v show ?thesis by (simp add: advanceState_hit)
  next
    case False
    with \<open>running st\<close> v show ?thesis
      by (simp add: advanceState_no_hit boundaryCheck_velocity)
  qed
qed

subsection \<open>The callbacks and the calls of the component\<close>

lemma endGame_not_running: "\<not> running (game (endGame app))"
  by (simp add: endGame_def)

lemma endGame_idle: "\<not> running (game app) \<Longrightarrow> endGame app = app"
  by (simp add: endGame_def)

lemma callback_keeps_idle:
  "\<not> running (game app) \<Longrightarrow> \<not> running (game (callback e app))"
  by (cases e) (simp_all add: callback_def incrementScore_def endGame_def Let_def)

lemma fold_callback_keeps_idle:
  "\<not> running (game app) \<Longrightarrow> \<not> running (game (fold callback evs app))"
  by (induction evs arbitrary: app) (simp_all add: callback_keeps_idle)

lemma fold_callback_crash:
  "Crash \<in> set evs \<Longrightarrow> \<not> running (game (fold callback evs app))"
proof (induction evs arbitrary: app)
  case Nil
  then show ?case by simp
next
  case (Cons e evs)
  show ?case
  proof (cases "e = Crash")
    case True
    then have "\<not> running (game (callback e app))"
      by (simp add: callback_def endGame_not_running)
    then show ?thesis by (simp add: fold_callback_keeps_idle)
  next
    case False
    with Cons.prems have "Crash \<in> set evs" by simp
    then show ?thesis by (simp add: Cons.IH)
  qed
qed

lemma callback_velocity: "birdVelocity (game (callback e app)) = birdVelocity (game app)"
  by (cases e) (simp_all add: callback_def incrementScore_def endGame_def Let_def)

lemma fold_callback_velocity:
  "birdVelocity (game (fold callback evs app)) = birdVelocity (game app)"
  by (induction evs arbitrary: app) (simp_all add: callback_velocity)

lemma advance_idle:
  "\<not> running (game app) \<Longrightarrow>
     advance dt rnd app = app\<lparr>game := (game app)\<lparr>wingTimer := wingTimer (game app) + dt\<rparr>\<rparr>"
  by (simp add: advance_def advanceState_idle)

lemma perform_engine_keeps_idle:
  "engineAction a \<Longrightarrow> \<not> running (game app) \<Longrightarrow> \<not> running (game (perform a app))"
  by (cases a) (simp_all add: advance_idle flap_def)

lemma run_engine_keeps_idle:
  "\<forall>a \<in> set acts. engineAction a \<Longrightarrow> \<not> running (game app) \<Longrightarrow>
     \<not> running (game (run acts app))"
  unfolding run_def
  by (induction acts arbitrary: app) (simp_all add: perform_engine_keeps_idle)

lemma perform_velocity:
  assumes "nonNegativeDt a" and "\<bar>birdVelocity (game app)\<bar> \<le> MAX_DROP_SPEED"
  shows "\<bar>birdVelocity (game (perform a app))\<bar> \<le> MAX_DROP_SPEED"
proof (cases a)
  case (Advance dt rnd)
  with assms show ?thesis
    by (simp add: advance_def case_prod_beta fold_callback_velocity advanceState_velocity)
next
  case Flap
  then show ?thesis by (simp add: flap_def FLAP_STRENGTH_def MAX_DROP_SPEED_def)
next
  case HandleFlap
  with assms(2) show ?thesis
    by (simp add: handleFlap_def startGame_def createInitialState_def flap_def
        FLAP_STRENGTH_def MAX_DROP_SPEED_def Let_def)
next
  case (Reset withFlap)
  then show ?thesis
    by (simp add: startGame_def createInitialState_def FLAP_STRENGTH_def
        MAX_DROP_SPEED_def Let_def)
qed

lemma run_velocity:
  "\<forall>a \<in> set acts. nonNegativeDt a \<Longrightarrow> \<bar>birdVelocity (game app)\<bar> \<le> MAX_DROP_SPEED \<Longrightarrow>
     \<bar>birdVelocity (game (run acts app))\<bar> \<le> MAX_DROP_SPEED"
  unfolding run_def
  by (induction acts arbitrary: app) (simp_all add: perform_velocity)

subsection \<open>Scored and pending pipes\<close>

lemma callback_pipes: "pipes (game (callback e app)) = pipes (game app)"
  by (cases e) (simp_all add: callback_def incrementScore_def endGame_def Let_def)

lemma fold_callback_pipes: "pipes (game (fold callback evs app)) = pipes (game app)"
  by (induction evs arbitrary: app) (simp_all add: callback_pipes)

lemma callback_score:
  "score (callback e app) = score app + (if e = Score then 1 else 0)"
  by (cases e) (simp_all add: callback_def incrementScore_def endGame_def Let_def)

lemma fold_callback_score: "score (fold callback evs app) = score app + scoreCount evs"
  by (induction evs arbitrary: app) (simp_all add: callback_score scoreCount_def)

lemma afterSpawn_pending:
  "pendingCount (pipes (afterSpawn st dt rnd)) =
     pendingCount (pipes st) + (if spawnTimer st + dt \<ge> PIPE_INTERVAL then 1 else 0)"
  by (simp add: afterSpawn_def spawnPipe_def applyPhysics_def pendingCount_def Let_def)

lemma advanceState_pending:
  assumes "running st"
  shows "pendingCount (pipes (fst (advanceState st dt rnd))) +
           scoreCount (snd (advanceState st dt rnd)) =
         pendingCount (pipes (afterSpawn st dt rnd))"
proof -
  have same: "list_all2 sameObstacle (pipes (afterSpawn st dt rnd)) (fst (loopResult st dt rnd))"
    unfolding loopResult_def by (rule pipeLoop_same)
  have cnt: "scoreCount (snd (advanceState st dt rnd)) =
      length (filter flipped (zip (pipes (afterSpawn st dt rnd)) (fst (loopResult st dt rnd))))"
    using assms by (simp add: advanceState_scoreCount loopResult_def pipeLoop_score_count)
  have "pendingCount (pipes (fst (advanceState st dt rnd))) =
      pendingCount (fst (loopResult st dt rnd))"
  proof (cases "snd (snd (loopResult st dt rnd))")
    case True
    with assms show ?thesis by (simp add: advanceState_pipes)
  next
    case False
    then have "fst (loopResult st dt rnd) =
        map (\<lambda>p. fst (pipeStep (birdY (afterSpawn st dt rnd)) dt p)) (pipes (afterSpawn st dt rnd))"
      unfolding loopResult_def by (rule pipeLoop_no_hit)
    with assms False show ?thesis by (simp add: advanceState_pipes pending_filter_keep)
  qed
  with cnt pending_flipped [OF same] show ?thesis by simp
qed

lemma advance_score_pending:
  "score (advance dt rnd app) + pendingCount (pipes (game (advance dt rnd app))) =
     score app + pendingCount (pipes (game app)) + (if spawnDue (game app) dt then 1 else 0)"
proof (cases "running (game app)")
  case False
  then show ?thesis by (simp add: advance_idle spawnDue_def)
next
  case True
  have "score (advance dt rnd app) =
      score app + scoreCount (snd (advanceState (game app) dt rnd))"
    by (simp add: advance_def case_prod_beta fold_callback_score)
  moreover have "pipes (game (advance dt rnd app)) =
      pipes (fst (advanceState (game app) dt rnd))"
    by (simp add: advance_def case_prod_beta fold_callback_pipes)
  ultimately show ?thesis
    using advanceState_pending [OF True, of dt rnd] afterSpawn_pending [of "game app" dt rnd] True
    by (simp add: spawnDue_def)
qed

lemma run_score_pending:
  "\<forall>a \<in> set acts. engineAction a \<Longrightarrow>
     score (run acts app) + pendingCount (pipes (game (run acts app))) =
       score app + pendingCount (pipes (game app)) + spawnsDuring acts app"
proof (induction acts arbitrary: app)
  case Nil
  then show ?case by (simp add: run_def)
next
  case (Cons a acts)
  then have ih: "score (run acts (perform a app)) +
        pendingCount (pipes (game (run acts (perform a app)))) =
      score (perform a app) + pendingCount (pipes (game (perform a app))) +
        spawnsDuring acts (perform a app)"
    by simp
  have step: "score (perform a app) + pendingCount (pipes (game (perform a app))) =
      score app + pendingCount (pipes (game app)) +
      (case a of Advance dt rnd \<Rightarrow> (if spawnDue (game app) dt then 1 else 0) | _ \<Rightarrow> 0)"
    using Cons.prems by (cases a) (simp_all add: advance_score_pending flap_def)
  have "run (a # acts) app = run acts (perform a app)" by (simp add: run_def)
  with ih step show ?case by simp
qed

section \<open>Properties\<close>

subsection \<open>The first spawn\<close>

text \<open>
  C1 (as amended). From the state of a fresh run (bird at half the canvas height, velocity
  0, no pipes, spawn timer 0, running), one frame of 1.45 seconds leaves exactly one pipe
  in the list, whatever the random draw. The pipe is created at
  \<open>CANVAS_WIDTH + PIPE_WIDTH = 498\<close> and scrolled by \<open>PIPE_SPEED * dt\<close> in the same
  frame, so its position after the frame is \<open>498 - 180 * 1.45 = 237\<close>.
\<close>

theorem first_spawn_scrolled_in_same_frame:
  "pipes (fst (advanceState (game (startGame False app)) 1.45 rnd)) =
     [\<lparr>pipe_x = CANVAS_WIDTH + PIPE_WIDTH - PIPE_SPEED * 1.45,
       gapCenter = randomGapCenter rnd, passed = False\<rparr>] \<and>
   CANVAS_WIDTH + PIPE_WIDTH - PIPE_SPEED * 1.45 = 237"
  by (simp add: startGame_def createInitialState_def advanceState_def applyPhysics_def
      spawnPipe_def pipeStep_def scoresNow_def hitsPipe_def boundaryCheck_def keepPipe_def
      consts_defs Let_def)

text \<open>
  C1 as stated fails: after the frame the only pipe is at 237, not at
  \<open>CANVAS_WIDTH + PIPE_WIDTH = 498\<close>.
\<close>

theorem first_spawn_not_at_spawn_position:
  "map pipe_x (pipes (fst (advanceState (game (startGame False freshApp)) 1.45 (1 / 2)))) = [237] \<and>
   map pipe_x (pipes (fst (advanceState (game (startGame False freshApp)) 1.45 (1 / 2)))) \<noteq>
     [CANVAS_WIDTH + PIPE_WIDTH]"
  by (simp add: freshApp_def startGame_def createInitialState_def advanceState_def
      applyPhysics_def spawnPipe_def pipeStep_def scoresNow_def hitsPipe_def boundaryCheck_def
      keepPipe_def consts_defs Let_def)

subsection \<open>Dropping the pipes that have left the screen\<close>

text \<open>
  C2 (as amended). After a frame on a running state in which the loop hits no pipe,
  whether or not the frame then ends on the ceiling or the ground, the pipe list is the
  list of the scrolled pipes (the old ones and the spawned one, in list order) filtered
  by \<open>pipe_x + PIPE_WIDTH > - PIPE_WIDTH\<close>: every pipe whose trailing edge is at or
  left of \<open>- PIPE_WIDTH\<close> is gone, every other pipe is kept, and the relative order of
  the kept pipes is that of the list before.
\<close>

theorem far_left_pipes_dropped_in_order:
  assumes "running st" and "\<not> snd (snd (loopResult st dt rnd))"
  shows "pipes (fst (advanceState st dt rnd)) =
           filter keepPipe (map (\<lambda>p. fst (pipeStep (birdY (afterSpawn st dt rnd)) dt p))
                                (pipes (afterSpawn st dt rnd))) \<and>
         (\<forall>p \<in> set (pipes (fst (advanceState st dt rnd))).
            pipe_x p + PIPE_WIDTH > - PIPE_WIDTH) \<and>
         subseq (pipes (fst (advanceState st dt rnd)))
                (map (\<lambda>p. fst (pipeStep (birdY (afterSpawn st dt rnd)) dt p))
                     (pipes (afterSpawn st dt rnd)))"
proof -
  have ps: "fst (loopResult st dt rnd) =
      map (\<lambda>p. fst (pipeStep (birdY (afterSpawn st dt rnd)) dt p)) (pipes (afterSpawn st dt rnd))"
    using assms(2) unfolding loopResult_def by (rule pipeLoop_no_hit)
  have eq: "pipes (fst (advanceState st dt rnd)) = filter keepPipe (fst (loopResult st dt rnd))"
    using assms by (simp add: advanceState_no_hit boundaryCheck_pipes)
  show ?thesis
    unfolding eq ps by (auto simp: keepPipe_def)
qed

text \<open>
  The witness is a frame that hits no pipe and ends on the ground: \<^verbatim>\<open>onCrash\<close> is
  called, and the pipe at \<open>- 155\<close> has been dropped all the same.
\<close>

theorem far_left_pipes_dropped_witness:
  "running lowBird \<and>
   \<not> snd (snd (loopResult lowBird (1 / 50) 0)) \<and>
   snd (advanceState lowBird (1 / 50) 0) = [Crash] \<and>
   map pipe_x (pipes lowBird) = [- 155, 200] \<and>
   map pipe_x (pipes (fst (advanceState lowBird (1 / 50) 0))) = [1964 / 10] \<and>
   Crash \<notin> set (snd (advanceState twoPipes (1 / 50) 0)) \<and>
   map pipe_x (pipes (fst (advanceState twoPipes (1 / 50) 0))) = [1964 / 10]"
  using far_left_pipes_dropped_in_order [of lowBird "1 / 50" 0]
  by (simp add: lowBird_def twoPipes_def engine_defs consts_defs Let_def)

text \<open>
  C2 as stated fails. A running frame without any collision keeps a pipe whose trailing
  edge is left of the boundary 0 but right of \<open>- PIPE_WIDTH\<close>; and a frame on a state
  that is not running returns before the filter and keeps every pipe.
\<close>

theorem pipe_past_left_boundary_kept:
  "snd (advanceState stalePipe (1 / 100) 0) = [] \<and>
   map pipe_x (pipes (fst (advanceState stalePipe (1 / 100) 0))) = [- 1018 / 10] \<and>
   - 1018 / 10 + PIPE_WIDTH \<le> 0 \<and>
   snd (advanceState strandedPipe (1 / 100) 0) = [] \<and>
   map pipe_x (pipes (fst (advanceState strandedPipe (1 / 100) 0))) = [- 200] \<and>
   - 200 + PIPE_WIDTH \<le> - PIPE_WIDTH"
  by (simp add: stalePipe_def strandedPipe_def engine_defs consts_defs Let_def)

subsection \<open>A negative elapsed time\<close>




subsection \<open>A frame while not running\<close>

text \<open>
  C4. For every \<open>dt \<ge> 0\<close>, a frame on a state that is not running leaves the bird's
  position, the bird's velocity and the pipe list (so its length and every pipe's
  position, gap centre and flag) as they were, and calls neither callback.
\<close>

theorem idle_frame_keeps_bird_and_pipes:
  assumes "\<not> running st" and "0 \<le> dt"
  shows "birdY (fst (advanceState st dt rnd)) = birdY st \<and>
         birdVelocity (fst (advanceState st dt rnd)) = birdVelocity st \<and>
         pipes (fst (advanceState st dt rnd)) = pipes st \<and>
         snd (advanceState st dt rnd) = []"
  using assms by (simp add: advanceState_def)

theorem idle_frame_witness:
  "\<not> running strandedPipe \<and> (0::real) \<le> 1 / 2 \<and>
   birdY (fst (advanceState strandedPipe (1 / 2) 0)) = 200 \<and>
   birdVelocity (fst (advanceState strandedPipe (1 / 2) 0)) = 300 \<and>
   pipes (fst (advanceState strandedPipe (1 / 2) 0)) = pipes strandedPipe \<and>
   snd (advanceState strandedPipe (1 / 2) 0) = []"
  using idle_frame_keeps_bird_and_pipes [of strandedPipe "1 / 2" 0]
  by (simp add: strandedPipe_def)

subsection \<open>The end of a run\<close>

text \<open>
  C5 (as amended). \<^verbatim>\<open>endGame\<close>, the \<^verbatim>\<open>onCrash\<close> of the component, leaves the state
  not running, and the state stays not running across every further sequence of frames
  and flaps (no reset among them). In every state so reached a further call of
  \<^verbatim>\<open>endGame\<close> changes nothing, so the flag is cleared once; and a further frame
  calls no callback and changes nothing but the wing timer, which grows by \<open>dt\<close>.
  A frame in which \<^verbatim>\<open>onCrash\<close> is called ends not running.
\<close>

theorem run_over_until_reset:
  assumes "\<forall>a \<in> set acts. engineAction a"
  shows "\<not> running (game (run acts (endGame app))) \<and>
         endGame (run acts (endGame app)) = run acts (endGame app) \<and>
         snd (advanceState (game (run acts (endGame app))) dt rnd) = [] \<and>
         advance dt rnd (run acts (endGame app)) =
           (run acts (endGame app))
             \<lparr>game := (game (run acts (endGame app)))
                \<lparr>wingTimer := wingTimer (game (run acts (endGame app))) + dt\<rparr>\<rparr> \<and>
         (Crash \<in> set (snd (advanceState (game app) dt rnd)) \<longrightarrow>
            \<not> running (game (advance dt rnd app)))"
proof -
  have idle: "\<not> running (game (run acts (endGame app)))"
    using assms by (rule run_engine_keeps_idle) (rule endGame_not_running)
  have crash: "Crash \<in> set (snd (advanceState (game app) dt rnd)) \<Longrightarrow>
      \<not> running (game (advance dt rnd app))"
    by (simp add: advance_def case_prod_beta fold_callback_crash)
  from idle crash show ?thesis
    by (simp add: endGame_idle advance_idle advanceState_idle)
qed

theorem run_over_witness:
  "engineAction (Advance 1 0) \<and> engineAction Flap \<and>
   running (game (startGame False freshApp)) \<and>
   \<not> running (game (run [Advance 1 0, Flap] (endGame (startGame False freshApp)))) \<and>
   Crash \<in> set (snd (advanceState (game (startGame False freshApp)) 2 0)) \<and>
   \<not> running (game (advance 2 0 (startGame False freshApp)))"
proof -
  have acts: "\<forall>a \<in> set [Advance 1 0, Flap]. engineAction a" by simp
  have crash: "Crash \<in> set (snd (advanceState (game (startGame False freshApp)) 2 0))"
    by (simp add: freshApp_def startGame_def createInitialState_def engine_defs
        consts_defs Let_def)
  have start: "running (game (startGame False freshApp))"
    by (simp add: startGame_def Let_def)
  from run_over_until_reset [OF acts, of "startGame False freshApp" 2 0] crash
  have "\<not> running (game (run [Advance 1 0, Flap] (endGame (startGame False freshApp)))) \<and>
      \<not> running (game (advance 2 0 (startGame False freshApp)))"
    by blast
  with crash start show ?thesis by simp
qed

text \<open>
  C5 as stated fails in its last part. After the end of a run a frame is not without
  effect on the state: it adds \<open>dt\<close> to the wing timer.
\<close>

theorem frame_after_end_moves_wing_timer:
  "\<not> running (game overApp) \<and> wingTimer (game overApp) = 0 \<and>
   wingTimer (game (advance 1 0 overApp)) = 1 \<and> advance 1 0 overApp \<noteq> overApp"
proof -
  have w: "wingTimer (game overApp) = 0 \<and> wingTimer (game (advance 1 0 overApp)) = 1 \<and>
      \<not> running (game overApp)"
    by (simp add: overApp_def freshApp_def endGame_def startGame_def createInitialState_def
        advance_def advanceState_def Let_def)
  then have "advance 1 0 overApp \<noteq> overApp" by auto
  with w show ?thesis by simp
qed

subsection \<open>The fall speed\<close>

text \<open>
  C6. Along every sequence of frames with a non-negative \<open>dt\<close>, flaps, flap inputs and
  resets, in any order, the absolute value of the bird's velocity is at most
  \<open>MAX_DROP_SPEED = 820\<close> after every call, provided it is so at the start.
\<close>

theorem fall_speed_bounded:
  assumes "\<forall>a \<in> set acts. nonNegativeDt a"
      and "\<bar>birdVelocity (game app)\<bar> \<le> MAX_DROP_SPEED"
  shows "\<bar>birdVelocity (game (run (take n acts) app))\<bar> \<le> MAX_DROP_SPEED \<and>
         MAX_DROP_SPEED = 820"
proof -
  have "\<forall>a \<in> set (take n acts). nonNegativeDt a"
    using assms(1) by (auto dest: in_set_takeD)
  then have "\<bar>birdVelocity (game (run (take n acts) app))\<bar> \<le> MAX_DROP_SPEED"
    using assms(2) by (rule run_velocity)
  then show ?thesis by (simp add: MAX_DROP_SPEED_def)
qed

theorem fall_speed_bounded_witness:
  "nonNegativeDt (Reset True) \<and> nonNegativeDt (Advance (1 / 2) 0) \<and> nonNegativeDt Flap \<and>
   \<bar>birdVelocity (game freshApp)\<bar> \<le> MAX_DROP_SPEED \<and>
   birdVelocity (game (run (take 2 [Reset True, Advance (1 / 2) 0, Flap]) freshApp)) = 280 \<and>
   \<bar>birdVelocity (game (run (take 2 [Reset True, Advance (1 / 2) 0, Flap]) freshApp))\<bar>
     \<le> MAX_DROP_SPEED"
  using fall_speed_bounded [of "[Reset True, Advance (1 / 2) 0, Flap]" freshApp 2]
  by (simp add: run_def freshApp_def startGame_def createInitialState_def advance_def
      advanceState_def applyPhysics_def spawnPipe_def boundaryCheck_def callback_def
      endGame_def consts_defs Let_def)

subsection \<open>Scoring\<close>

text \<open>
  C7. In every frame on a running state the loop keeps the pipes in place (the pipe at
  an index before the loop is the pipe at that index after it, with the same gap
  centre), a flag that is true stays true, and the number of calls of \<^verbatim>\<open>onScore\<close> in
  the frame is the number of pipes whose flag went from false to true in that frame. The
  pipes of the new state are those of the loop, or those of them that the filter keeps.
  A frame on a state that is not running leaves the pipes alone and calls no callback.
  Over every sequence of frames and flaps, the score (the number of calls of
  \<^verbatim>\<open>onScore\<close>) plus the number of pipes whose flag is false grows by the number of
  pipes spawned and by nothing else: a pipe leaves the unscored ones only by one call
  of \<^verbatim>\<open>onScore\<close>, and no call of \<^verbatim>\<open>onScore\<close> is made without such a pipe. So a flag
  goes from false to true at most once and never back, and \<^verbatim>\<open>onScore\<close> is called once
  for each such step, in the frame where it happens.
\<close>

theorem scored_once_per_flag_flip:
  "(running st \<longrightarrow>
      length (fst (loopResult st dt rnd)) = length (pipes (afterSpawn st dt rnd)) \<and>
      (\<forall>i < length (pipes (afterSpawn st dt rnd)).
         gapCenter (fst (loopResult st dt rnd) ! i) =
           gapCenter (pipes (afterSpawn st dt rnd) ! i) \<and>
         (passed (pipes (afterSpawn st dt rnd) ! i) \<longrightarrow>
            passed (fst (loopResult st dt rnd) ! i))) \<and>
      scoreCount (snd (advanceState st dt rnd)) =
        length (filter flipped
          (zip (pipes (afterSpawn st dt rnd)) (fst (loopResult st dt rnd)))) \<and>
      pipes (fst (advanceState st dt rnd)) =
        (if snd (snd (loopResult st dt rnd)) then fst (loopResult st dt rnd)
         else filter keepPipe (fst (loopResult st dt rnd)))) \<and>
   (\<not> running st \<longrightarrow>
      pipes (fst (advanceState st dt rnd)) = pipes st \<and> snd (advanceState st dt rnd) = []) \<and>
   ((\<forall>a \<in> set acts. engineAction a) \<longrightarrow>
      score (run acts app) + pendingCount (pipes (game (run acts app))) =
        score app + pendingCount (pipes (game app)) + spawnsDuring acts app)"
proof -
  have same: "list_all2 sameObstacle (pipes (afterSpawn st dt rnd)) (fst (loopResult st dt rnd))"
    unfolding loopResult_def by (rule pipeLoop_same)
  have len: "length (fst (loopResult st dt rnd)) = length (pipes (afterSpawn st dt rnd))"
    using same by (simp add: list_all2_lengthD)
  have nth: "\<forall>i < length (pipes (afterSpawn st dt rnd)).
      gapCenter (fst (loopResult st dt rnd) ! i) = gapCenter (pipes (afterSpawn st dt rnd) ! i) \<and>
      (passed (pipes (afterSpawn st dt rnd) ! i) \<longrightarrow> passed (fst (loopResult st dt rnd) ! i))"
    using same by (simp add: list_all2_conv_all_nth sameObstacle_def)
  have cnt: "running st \<Longrightarrow> scoreCount (snd (advanceState st dt rnd)) =
      length (filter flipped (zip (pipes (afterSpawn st dt rnd)) (fst (loopResult st dt rnd))))"
    by (simp add: advanceState_scoreCount loopResult_def pipeLoop_score_count)
  have ps: "running st \<Longrightarrow> pipes (fst (advanceState st dt rnd)) =
      (if snd (snd (loopResult st dt rnd)) then fst (loopResult st dt rnd)
       else filter keepPipe (fst (loopResult st dt rnd)))"
    by (rule advanceState_pipes)
  have idle: "\<not> running st \<Longrightarrow>
      pipes (fst (advanceState st dt rnd)) = pipes st \<and> snd (advanceState st dt rnd) = []"
    by (simp add: advanceState_idle)
  have seq: "\<forall>a \<in> set acts. engineAction a \<Longrightarrow>
      score (run acts app) + pendingCount (pipes (game (run acts app))) =
        score app + pendingCount (pipes (game app)) + spawnsDuring acts app"
    by (rule run_score_pending)
  from len nth cnt ps idle seq show ?thesis by blast
qed

theorem scored_once_witness:
  "running passingPipe \<and> \<not> running strandedPipe \<and>
   engineAction (Advance (1 / 100) 0) \<and> engineAction Flap \<and>
   map passed (pipes (afterSpawn passingPipe (1 / 100) 0)) = [False] \<and>
   map passed (fst (loopResult passingPipe (1 / 100) 0)) = [True] \<and>
   snd (advanceState passingPipe (1 / 100) 0) = [Score] \<and>
   map passed (pipes (fst (advanceState passingPipe (1 / 100) 0))) = [True] \<and>
   snd (advanceState strandedPipe (1 / 100) 0) = [] \<and>
   score passingApp = 0 \<and> pendingCount (pipes (game passingApp)) = 1 \<and>
   spawnsDuring [Advance (1 / 100) 0, Flap, Advance (1 / 100) 0] passingApp = 0 \<and>
   score (run [Advance (1 / 100) 0, Flap, Advance (1 / 100) 0] passingApp) = 1 \<and>
   pendingCount (pipes (game (run [Advance (1 / 100) 0, Flap, Advance (1 / 100) 0] passingApp))) = 0"
proof -
  have acts: "\<forall>a \<in> set [Advance (1 / 100) 0, Flap, Advance (1 / 100) 0]. engineAction a"
    by simp
  have frame: "running passingPipe \<and>
      map passed (pipes (afterSpawn passingPipe (1 / 100) 0)) = [False] \<and>
      map passed (fst (loopResult passingPipe (1 / 100) 0)) = [True] \<and>
      snd (advanceState passingPipe (1 / 100) 0) = [Score] \<and>
      map passed (pipes (fst (advanceState passingPipe (1 / 100) 0))) = [True]"
    by (simp add: passingPipe_def engine_defs consts_defs Let_def)
  have idle: "\<not> running strandedPipe \<and> snd (advanceState strandedPipe (1 / 100) 0) = []"
    by (simp add: strandedPipe_def advanceState_def)
  have start: "score passingApp = 0 \<and> pendingCount (pipes (game passingApp)) = 1"
    by (simp add: passingApp_def passingPipe_def pendingCount_def)
  have spawns: "spawnsDuring [Advance (1 / 100) 0, Flap, Advance (1 / 100) 0] passingApp = 0"
    by (simp add: passingApp_def passingPipe_def spawnDue_def advance_def flap_def
        callback_def incrementScore_def endGame_def engine_defs consts_defs Let_def)
  have pend: "pendingCount
      (pipes (game (run [Advance (1 / 100) 0, Flap, Advance (1 / 100) 0] passingApp))) = 0"
    by (simp add: run_def passingApp_def passingPipe_def advance_def flap_def
        callback_def incrementScore_def endGame_def pendingCount_def engine_defs
        consts_defs Let_def)
  from scored_once_per_flag_flip
    [of passingPipe "1 / 100" 0 "[Advance (1 / 100) 0, Flap, Advance (1 / 100) 0]" passingApp]
    acts start spawns pend
  have "score (run [Advance (1 / 100) 0, Flap, Advance (1 / 100) 0] passingApp) = 1"
    by simp
  with frame idle start spawns pend show ?thesis by simp
qed

subsection \<open>The gap of a spawned pipe\<close>

text \<open>
  C8. For every value of the random source from 0 (included) to 1 (excluded), the gap
  centre chosen at spawn keeps the whole gap inside the play field: the top edge of the
  gap, \<open>gapCenter - PIPE_GAP / 2\<close>, is below the ceiling at 0, and its bottom edge,
  \<open>gapCenter + PIPE_GAP / 2\<close>, is above the ground band at
  \<open>CANVAS_HEIGHT - GROUND_HEIGHT\<close>.
\<close>

theorem randomGapCenter_clear_of_ceiling_and_ground:
  assumes "0 \<le> rnd" and "rnd < 1"
  shows "randomGapCenter rnd - PIPE_GAP / 2 > 0 \<and>
         randomGapCenter rnd + PIPE_GAP / 2 < CANVAS_HEIGHT - GROUND_HEIGHT"
  using assms by (simp add: randomGapCenter_def consts_defs Let_def)

theorem randomGapCenter_clear_witness:
  "(0::real) \<le> 1 / 2 \<and> (1::real) / 2 < 1 \<and>
   randomGapCenter (1 / 2) - PIPE_GAP / 2 > 0 \<and>
   randomGapCenter (1 / 2) + PIPE_GAP / 2 < CANVAS_HEIGHT - GROUND_HEIGHT"
  using randomGapCenter_clear_of_ceiling_and_ground [of "1 / 2"] by simp

subsection \<open>The collision predicate\<close>

text \<open>
  C9. For every pipe, wherever it is, and every bird position strictly between
  \<open>gapCenter - PIPE_GAP / 2 + BIRD_RADIUS\<close> and \<open>gapCenter + PIPE_GAP / 2 - BIRD_RADIUS\<close>,
  the collision predicate is false, also when the bird overlaps the pipe horizontally;
  and the body of the loop reports no hit for that pipe.
\<close>

theorem no_collision_inside_gap:
  assumes "gapCenter pipe - PIPE_GAP / 2 + BIRD_RADIUS < y"
      and "y < gapCenter pipe + PIPE_GAP / 2 - BIRD_RADIUS"
  shows "\<not> hitsPipe y pipe \<and> \<not> snd (snd (pipeStep y dt pipe))"
  using assms by (simp add: hitsPipe_def pipeStep_def Let_def)

theorem no_collision_inside_gap_witness:
  "gapCenter overlappingPipe - PIPE_GAP / 2 + BIRD_RADIUS < 300 \<and>
   300 < gapCenter overlappingPipe + PIPE_GAP / 2 - BIRD_RADIUS \<and>
   BIRD_X + BIRD_RADIUS > pipe_x overlappingPipe \<and>
   BIRD_X - BIRD_RADIUS < pipe_x overlappingPipe + PIPE_WIDTH \<and>
   \<not> hitsPipe 300 overlappingPipe \<and> hitsPipe 200 overlappingPipe"
  using no_collision_inside_gap [of overlappingPipe 300 0]
  by (simp add: overlappingPipe_def hitsPipe_def consts_defs Let_def)

text \<open>
  C10. The body of the loop never both calls \<^verbatim>\<open>onScore\<close> for a pipe and reports a hit
  of that pipe: a pipe whose trailing edge is strictly left of the bird's left edge,
  \<open>pipe_x + PIPE_WIDTH < BIRD_X - BIRD_RADIUS\<close>, does not overlap the bird
  horizontally, so the collision predicate is false for it at every bird position.
\<close>

theorem scored_pipe_never_hit:
  "\<not> (fst (snd (pipeStep y dt pipe)) \<and> snd (snd (pipeStep y dt pipe))) \<and>
   (pipe_x pipe + PIPE_WIDTH < BIRD_X - BIRD_RADIUS \<longrightarrow> \<not> hitsPipe y pipe)"
  by (auto simp add: hitsPipe_def pipeStep_def scoresNow_def Let_def)

theorem scored_pipe_never_hit_witness:
  "pipe_x behindPipe + PIPE_WIDTH < BIRD_X - BIRD_RADIUS \<and>
   fst (snd (pipeStep 0 0 behindPipe)) \<and> \<not> snd (snd (pipeStep 0 0 behindPipe)) \<and>
   \<not> hitsPipe 0 behindPipe \<and> hitsPipe 0 overlappingPipe"
  using scored_pipe_never_hit [of 0 0 behindPipe]
  by (simp add: behindPipe_def overlappingPipe_def hitsPipe_def pipeStep_def scoresNow_def
      consts_defs Let_def)

end
